theory Spec2Isabelle
  imports Complex_Main
begin

section \<open>Python numbers used by the backends and the heartbeat monitor\<close>

text \<open>
  The MotoZero and CamJam backends keep the speed as a Python \<open>float\<close>
  (\<open>speed_percent / 100.0\<close>) and report it as \<open>int(current_speed * 100)\<close>.
  A finite binary64 value is modelled by the rational number it denotes; every
  arithmetic operation computes the exact rational result and rounds it to the
  nearest binary64 value, ties to even (IEEE 754, the rounding CPython uses).
  Below \<open>2 ^ - 1022\<close> the spacing of the numbers stays \<open>2 ^ - 1074\<close> (the subnormal
  numbers). Overflow is not modelled: no value here reaches \<open>2 ^ 1024\<close> (speeds are
  at most 100, clock readings are seconds since 1970).
\<close>

type_synonym double = rat

definition pow2 :: "int \<Rightarrow> rat" where
  "pow2 k = (if 0 \<le> k then 2 ^ nat k else 1 / 2 ^ nat (- k))"

definition round_half_even :: "rat \<Rightarrow> int" where
  "round_half_even q =
     (let f = \<lfloor>q\<rfloor>; r = q - of_int f
      in if r < 1 / 2 then f
         else if 1 / 2 < r then f + 1
         else if even f then f else f + 1)"

function bit_length :: "int \<Rightarrow> nat" where
  "bit_length n = (if n \<le> 0 then 0 else Suc (bit_length (n div 2)))"
  by pat_completeness auto
termination
  by (relation "measure nat") auto

declare bit_length.simps [simp del]

definition float_exponent :: "rat \<Rightarrow> int" where
  \<comment> \<open>the \<open>e\<close> with \<open>2 ^ e \<le> \<bar>q\<bar> < 2 ^ (e + 1)\<close>, for \<open>q \<noteq> 0\<close>\<close>
  "float_exponent q =
     (let a = fst (quotient_of \<bar>q\<bar>); b = snd (quotient_of \<bar>q\<bar>);
          k = int (bit_length a) - int (bit_length b)
      in if pow2 k \<le> \<bar>q\<bar> then k else k - 1)"

definition to_double :: "rat \<Rightarrow> double" where
  \<comment> \<open>round to 53 significant bits (fewer below \<open>2 ^ - 1022\<close>), nearest, ties to even\<close>
  "to_double q =
     (if q = 0 then 0
      else let e = max (float_exponent q - 52) (- 1074)
           in of_int (round_half_even (q / pow2 e)) * pow2 e)"

definition float_div :: "double \<Rightarrow> double \<Rightarrow> double" where
  "float_div x y = to_double (x / y)"

definition float_mul :: "double \<Rightarrow> double \<Rightarrow> double" where
  "float_mul x y = to_double (x * y)"

definition float_sub :: "double \<Rightarrow> double \<Rightarrow> double" where
  "float_sub x y = to_double (x - y)"

definition float_of_int :: "int \<Rightarrow> double" where
  \<comment> \<open>exact below \<open>2 ^ 53\<close>; the backends convert clamped percentages only\<close>
  "float_of_int i = to_double (of_int i)"

definition int_of_float :: "double \<Rightarrow> int" where
  \<comment> \<open>Python's \<open>int(x)\<close> truncates towards zero\<close>
  "int_of_float x = (if 0 \<le> x then \<lfloor>x\<rfloor> else \<lceil>x\<rceil>)"

definition clamp_percent :: "int \<Rightarrow> int" where
  \<comment> \<open>the \<open>if speed_percent < 0 ... elif speed_percent > 100\<close> prologue of every \<open>set_speed\<close>\<close>
  "clamp_percent percent =
     (if percent < 0 then 0
      else if 100 < percent then 100
      else percent)"


section \<open>The motor backends (\<open>motor/hal\<close>)\<close>

text \<open>
  Each backend keeps \<open>current_speed\<close>, \<open>current_direction\<close> and \<open>is_moving\<close> and
  drives its hardware through a library (gpiozero or RPi.GPIO). The calls made on the
  library are recorded, in order, in a list carried by the backend state. The direction
  strings \<open>"STOPPED"\<close>, \<open>"FORWARD"\<close>, ... are the constructors of \<open>direction\<close>.
  The parameter \<open>speed_percent\<close> of the source is written \<open>percent\<close>.
\<close>

datatype direction = STOPPED | FORWARD | BACKWARD | LEFT | RIGHT

text \<open>
  The dictionary returned by \<open>get_status\<close>. The keys every backend sets are plain
  fields; a key that only some code path adds (CamJam's motor speeds, and the
  \<open>timestamp\<close> and \<open>controller_type\<close> added by \<open>publish_status\<close>) is \<open>None\<close> when absent.
\<close>

record status =
  speed_percent :: int
  direction :: direction
  is_moving :: bool
  left_motor_speed :: "double option"
  right_motor_speed :: "double option"
  timestamp :: "rat option"
  controller_type :: "string option"

subsection \<open>\<open>motozero.py\<close>\<close>

datatype motor = MotorFR | MotorFL | MotorRL | MotorRR

datatype motor_call = Motor_forward motor double | Motor_backward motor double | Motor_stop motor

record motozero =
  mz_current_speed :: double
  mz_current_direction :: direction
  mz_is_moving :: bool
  mz_calls :: "motor_call list"

definition MotoZeroController :: motozero where
  "MotoZeroController =
     \<lparr>mz_current_speed = 0, mz_current_direction = STOPPED, mz_is_moving = False, mz_calls = []\<rparr>"

definition mz_movement :: "direction \<Rightarrow> double \<Rightarrow> motor_call list" where
  "mz_movement d v =
     (case d of
        FORWARD \<Rightarrow> [Motor_forward MotorFR v, Motor_forward MotorFL v,
                    Motor_forward MotorRL v, Motor_forward MotorRR v]
      | BACKWARD \<Rightarrow> [Motor_backward MotorFR v, Motor_backward MotorFL v,
                     Motor_backward MotorRL v, Motor_backward MotorRR v]
      | LEFT \<Rightarrow> [Motor_backward MotorFR v, Motor_forward MotorFL v,
                 Motor_forward MotorRL v, Motor_backward MotorRR v]
      | RIGHT \<Rightarrow> [Motor_forward MotorFR v, Motor_backward MotorFL v,
                  Motor_backward MotorRL v, Motor_forward MotorRR v]
      | STOPPED \<Rightarrow> [])"

definition mz_apply_current_movement :: "motozero \<Rightarrow> motozero" where
  "mz_apply_current_movement s =
     s\<lparr>mz_calls := mz_calls s @ mz_movement (mz_current_direction s) (mz_current_speed s)\<rparr>"

definition mz_set_speed :: "int \<Rightarrow> motozero \<Rightarrow> motozero" where
  "mz_set_speed percent s =
     (let s1 = s\<lparr>mz_current_speed := float_div (float_of_int (clamp_percent percent)) 100\<rparr>
      in if mz_is_moving s1 then mz_apply_current_movement s1 else s1)"

definition mz_start :: "direction \<Rightarrow> int \<Rightarrow> motozero \<Rightarrow> motozero" where
  \<comment> \<open>the common body of \<open>start_forward\<close>, \<open>start_backward\<close>, \<open>start_left\<close>, \<open>start_right\<close>\<close>
  "mz_start d percent s =
     mz_apply_current_movement
       ((mz_set_speed percent s)\<lparr>mz_current_direction := d, mz_is_moving := True\<rparr>)"

definition mz_stop :: "motozero \<Rightarrow> motozero" where
  "mz_stop s =
     s\<lparr>mz_calls := mz_calls s @ [Motor_stop MotorFR, Motor_stop MotorFL,
                                  Motor_stop MotorRL, Motor_stop MotorRR],
       mz_current_direction := STOPPED, mz_is_moving := False\<rparr>"

definition mz_get_status :: "motozero \<Rightarrow> status" where
  "mz_get_status s =
     \<lparr>speed_percent = int_of_float (float_mul (mz_current_speed s) 100),
      direction = mz_current_direction s, is_moving = mz_is_moving s,
      left_motor_speed = None, right_motor_speed = None,
      timestamp = None, controller_type = None\<rparr>"

definition mz_cleanup :: "motozero \<Rightarrow> motozero" where
  "mz_cleanup s = mz_stop s"

subsection \<open>\<open>camjam.py\<close>\<close>

datatype robot_call = Robot_stop | Robot_value double double

record camjam =
  cj_current_speed :: double
  cj_current_direction :: direction
  cj_is_moving :: bool
  cj_left_motor_speed :: double
  cj_right_motor_speed :: double
  cj_calls :: "robot_call list"

definition CamJamController :: camjam where
  "CamJamController =
     \<lparr>cj_current_speed = 1 / 2, cj_current_direction = STOPPED, cj_is_moving = False,
      cj_left_motor_speed = 1 / 2, cj_right_motor_speed = 1 / 2, cj_calls = []\<rparr>"

definition cj_movement :: "direction \<Rightarrow> double \<Rightarrow> double \<Rightarrow> robot_call list" where
  "cj_movement d l r =
     (case d of
        FORWARD \<Rightarrow> [Robot_value l r]
      | BACKWARD \<Rightarrow> [Robot_value (- l) (- r)]
      | LEFT \<Rightarrow> [Robot_value l 0]
      | RIGHT \<Rightarrow> [Robot_value 0 r]
      | STOPPED \<Rightarrow> [])"

definition cj_apply_current_movement :: "camjam \<Rightarrow> camjam" where
  "cj_apply_current_movement s =
     s\<lparr>cj_calls := cj_calls s @
        cj_movement (cj_current_direction s) (cj_left_motor_speed s) (cj_right_motor_speed s)\<rparr>"

definition cj_set_speed :: "int \<Rightarrow> camjam \<Rightarrow> camjam" where
  "cj_set_speed percent s =
     (let v = float_div (float_of_int (clamp_percent percent)) 100;
          s1 = s\<lparr>cj_current_speed := v, cj_left_motor_speed := v, cj_right_motor_speed := v\<rparr>
      in if cj_is_moving s1 then cj_apply_current_movement s1 else s1)"

definition cj_start :: "direction \<Rightarrow> int \<Rightarrow> camjam \<Rightarrow> camjam" where
  "cj_start d percent s =
     cj_apply_current_movement
       ((cj_set_speed percent s)\<lparr>cj_current_direction := d, cj_is_moving := True\<rparr>)"

definition cj_stop :: "camjam \<Rightarrow> camjam" where
  "cj_stop s =
     s\<lparr>cj_calls := cj_calls s @ [Robot_stop],
       cj_current_direction := STOPPED, cj_is_moving := False\<rparr>"

definition cj_get_status :: "camjam \<Rightarrow> status" where
  "cj_get_status s =
     \<lparr>speed_percent = int_of_float (float_mul (cj_current_speed s) 100),
      direction = cj_current_direction s, is_moving = cj_is_moving s,
      left_motor_speed = Some (cj_left_motor_speed s),
      right_motor_speed = Some (cj_right_motor_speed s),
      timestamp = None, controller_type = None\<rparr>"

definition cj_cleanup :: "camjam \<Rightarrow> camjam" where
  "cj_cleanup s = cj_stop s"

subsection \<open>\<open>l298.py\<close>\<close>

datatype pwm = Pwm_a | Pwm_b

datatype gpio_call =
    GPIO_setmode_BCM
  | GPIO_setup_OUT nat
  | GPIO_output nat bool
  | GPIO_PWM pwm nat nat
  | PWM_start pwm int
  | PWM_ChangeDutyCycle pwm int
  | PWM_stop pwm
  | GPIO_cleanup

definition in1 :: nat where "in1 = 21"
definition in2 :: nat where "in2 = 20"
definition ena :: nat where "ena = 16"
definition in3 :: nat where "in3 = 19"
definition in4 :: nat where "in4 = 26"
definition enb :: nat where "enb = 13"

record l298 =
  l_current_speed :: int
  l_current_direction :: direction
  l_is_moving :: bool
  l_calls :: "gpio_call list"

definition L298Controller :: l298 where
  "L298Controller =
     \<lparr>l_current_speed = 50, l_current_direction = STOPPED, l_is_moving = False,
      l_calls =
        [GPIO_setmode_BCM,
         GPIO_setup_OUT in1, GPIO_setup_OUT in2, GPIO_setup_OUT in3, GPIO_setup_OUT in4,
         GPIO_setup_OUT ena, GPIO_setup_OUT enb,
         GPIO_output in1 False, GPIO_output in2 False,
         GPIO_output in3 False, GPIO_output in4 False,
         GPIO_PWM Pwm_a ena 1000, GPIO_PWM Pwm_b enb 1000,
         PWM_start Pwm_a 0, PWM_start Pwm_b 0]\<rparr>"

definition l_set_speed :: "int \<Rightarrow> l298 \<Rightarrow> l298" where
  "l_set_speed percent s =
     (let s1 = s\<lparr>l_current_speed := clamp_percent percent\<rparr>
      in if l_is_moving s1
         then s1\<lparr>l_calls := l_calls s1 @
                 [PWM_ChangeDutyCycle Pwm_a (l_current_speed s1),
                  PWM_ChangeDutyCycle Pwm_b (l_current_speed s1)]\<rparr>
         else s1)"

definition l_pins :: "direction \<Rightarrow> bool \<times> bool \<times> bool \<times> bool" where
  \<comment> \<open>the levels each start operation writes to \<open>in1\<close>, \<open>in2\<close>, \<open>in3\<close>, \<open>in4\<close>; \<open>stop\<close> writes all low\<close>
  "l_pins d =
     (case d of
        FORWARD \<Rightarrow> (True, False, True, False)
      | BACKWARD \<Rightarrow> (False, True, False, True)
      | LEFT \<Rightarrow> (False, True, True, False)
      | RIGHT \<Rightarrow> (True, False, False, True)
      | STOPPED \<Rightarrow> (False, False, False, False))"

definition l_outputs :: "bool \<times> bool \<times> bool \<times> bool \<Rightarrow> int \<Rightarrow> gpio_call list" where
  "l_outputs lv duty =
     (case lv of (a, b, c, d) \<Rightarrow>
        [GPIO_output in1 a, GPIO_output in2 b, GPIO_output in3 c, GPIO_output in4 d,
         PWM_ChangeDutyCycle Pwm_a duty, PWM_ChangeDutyCycle Pwm_b duty])"

definition l_start :: "direction \<Rightarrow> int \<Rightarrow> l298 \<Rightarrow> l298" where
  "l_start d percent s =
     (let s1 = (l_set_speed percent s)\<lparr>l_current_direction := d, l_is_moving := True\<rparr>
      in s1\<lparr>l_calls := l_calls s1 @ l_outputs (l_pins d) (l_current_speed s1)\<rparr>)"

definition l_stop :: "l298 \<Rightarrow> l298" where
  "l_stop s =
     s\<lparr>l_calls := l_calls s @ l_outputs (l_pins STOPPED) 0,
       l_current_direction := STOPPED, l_is_moving := False\<rparr>"

definition l_get_status :: "l298 \<Rightarrow> status" where
  "l_get_status s =
     \<lparr>speed_percent = l_current_speed s,
      direction = l_current_direction s, is_moving = l_is_moving s,
      left_motor_speed = None, right_motor_speed = None,
      timestamp = None, controller_type = None\<rparr>"

definition l_cleanup :: "l298 \<Rightarrow> l298" where
  "l_cleanup s =
     (let s1 = l_stop s
      in s1\<lparr>l_calls := l_calls s1 @ [PWM_stop Pwm_a, PWM_stop Pwm_b, GPIO_cleanup]\<rparr>)"

subsection \<open>The object held in \<open>self.motor_hal\<close>\<close>

datatype hal = MotoZero motozero | L298 l298 | CamJam camjam

definition set_speed :: "int \<Rightarrow> hal \<Rightarrow> hal" where
  "set_speed percent h =
     (case h of
        MotoZero s \<Rightarrow> MotoZero (mz_set_speed percent s)
      | L298 s \<Rightarrow> L298 (l_set_speed percent s)
      | CamJam s \<Rightarrow> CamJam (cj_set_speed percent s))"

definition start :: "direction \<Rightarrow> int option \<Rightarrow> hal \<Rightarrow> hal" where
  \<comment> \<open>\<open>start_forward\<close>, ... of the backend; every backend declares \<open>speed_percent=50\<close>,
      the value used when the caller passes no argument (\<open>None\<close>)\<close>
  "start d arg h =
     (let percent = (case arg of None \<Rightarrow> 50 | Some v \<Rightarrow> v)
      in case h of
           MotoZero s \<Rightarrow> MotoZero (mz_start d percent s)
         | L298 s \<Rightarrow> L298 (l_start d percent s)
         | CamJam s \<Rightarrow> CamJam (cj_start d percent s))"

definition start_forward :: "int option \<Rightarrow> hal \<Rightarrow> hal" where
  "start_forward = start FORWARD"

definition start_backward :: "int option \<Rightarrow> hal \<Rightarrow> hal" where
  "start_backward = start BACKWARD"

definition start_left :: "int option \<Rightarrow> hal \<Rightarrow> hal" where
  "start_left = start LEFT"

definition start_right :: "int option \<Rightarrow> hal \<Rightarrow> hal" where
  "start_right = start RIGHT"

definition stop :: "hal \<Rightarrow> hal" where
  "stop h =
     (case h of
        MotoZero s \<Rightarrow> MotoZero (mz_stop s)
      | L298 s \<Rightarrow> L298 (l_stop s)
      | CamJam s \<Rightarrow> CamJam (cj_stop s))"

definition get_status :: "hal \<Rightarrow> status" where
  "get_status h =
     (case h of
        MotoZero s \<Rightarrow> mz_get_status s
      | L298 s \<Rightarrow> l_get_status s
      | CamJam s \<Rightarrow> cj_get_status s)"

definition cleanup_hal :: "hal \<Rightarrow> hal" where
  "cleanup_hal h =
     (case h of
        MotoZero s \<Rightarrow> MotoZero (mz_cleanup s)
      | L298 s \<Rightarrow> L298 (l_cleanup s)
      | CamJam s \<Rightarrow> CamJam (cj_cleanup s))"


section \<open>Python strings used by the command handler\<close>

text \<open>
  Command text is a \<open>string\<close> of characters with code points below 256 (ASCII and
  Latin-1). \<open>upper\<close> and \<open>lower\<close> are \<open>str.upper\<close> and \<open>str.lower\<close> on these: the
  letters a-z and 0xE0-0xFE (0xF7, the division sign, excepted) have their capital 32
  code points below, and 0xDF becomes \<open>SS\<close>. The capitals of 0xB5 and 0xFF lie above 255;
  these two characters stand for their capitals, which like them are no ASCII character,
  no whitespace and no digit, so that no comparison, split or integer conversion below
  tells the two apart. \<open>strip\<close> removes the characters for which \<open>str.isspace\<close> holds.
\<close>

definition upper_char :: "char \<Rightarrow> string" where
  "upper_char c =
     (let n = (of_char c :: nat)
      in if (97 \<le> n \<and> n \<le> 122) \<or> (224 \<le> n \<and> n \<le> 254 \<and> n \<noteq> 247) then [char_of (n - 32)]
         else if n = 223 then ''SS''
         else [c])"

definition upper :: "string \<Rightarrow> string" where
  "upper s = concat (map upper_char s)"

definition lower_char :: "char \<Rightarrow> char" where
  "lower_char c =
     (let n = (of_char c :: nat)
      in if (65 \<le> n \<and> n \<le> 90) \<or> (192 \<le> n \<and> n \<le> 222 \<and> n \<noteq> 215) then char_of (n + 32)
         else c)"

definition lower :: "string \<Rightarrow> string" where
  "lower s = map lower_char s"

definition isspace :: "char \<Rightarrow> bool" where
  "isspace c =
     (let n = (of_char c :: nat)
      in (9 \<le> n \<and> n \<le> 13) \<or> (28 \<le> n \<and> n \<le> 32) \<or> n = 133 \<or> n = 160)"

definition strip :: "string \<Rightarrow> string" where
  "strip s = rev (dropWhile isspace (rev (dropWhile isspace s)))"

definition split_once :: "string \<Rightarrow> string \<times> string" where
  \<comment> \<open>\<open>command.split(":", 1)\<close> for a command that contains \<open>:\<close>\<close>
  "split_once s =
     (takeWhile (\<lambda>c. c \<noteq> CHR '':'') s, drop 1 (dropWhile (\<lambda>c. c \<noteq> CHR '':'') s))"

datatype exn =
    AttributeError string
  | ValueError
  | ImportError
  | JSONDecodeError
  | ConnectionError

definition isdigit :: "char \<Rightarrow> bool" where
  "isdigit c = (let n = (of_char c :: nat) in 48 \<le> n \<and> n \<le> 57)"

fun digits_ok :: "string \<Rightarrow> bool" where
  \<comment> \<open>after a digit: more digits, each optionally preceded by one underscore\<close>
  "digits_ok [] = True"
| "digits_ok [c] = isdigit c"
| "digits_ok (c # d # cs) =
     (if c = CHR ''_'' then isdigit d \<and> digits_ok (d # cs)
      else isdigit c \<and> digits_ok (d # cs))"

definition digit_value :: "string \<Rightarrow> int" where
  "digit_value ds = foldl (\<lambda>acc c. 10 * acc + (int (of_char c) - 48)) 0 ds"

definition int_space :: "char \<Rightarrow> bool" where
  \<comment> \<open>the whitespace \<open>int()\<close> skips around a number: 9-13, 32, 0x85 and 0xA0. The
      separators 0x1C-0x1F, which \<open>str.strip\<close> removes, are no whitespace for \<open>int()\<close>.\<close>
  "int_space c =
     (let n = (of_char c :: nat)
      in (9 \<le> n \<and> n \<le> 13) \<or> n = 32 \<or> n = 133 \<or> n = 160)"

definition py_int :: "string \<Rightarrow> exn + int" where
  \<comment> \<open>\<open>int(value)\<close> on a string: surrounding whitespace, an optional sign, decimal digits
      with single underscores between them; more than 4300 digits are refused\<close>
  "py_int s =
     (let t = rev (dropWhile int_space (rev (dropWhile int_space s)));
          neg = (t \<noteq> [] \<and> hd t = CHR ''-'');
          body = (if t \<noteq> [] \<and> (hd t = CHR ''-'' \<or> hd t = CHR ''+'') then tl t else t);
          ds = filter isdigit body
      in if body \<noteq> [] \<and> isdigit (hd body) \<and> digits_ok body \<and> length ds \<le> 4300
         then Inr (if neg then - digit_value ds else digit_value ds)
         else Inl ValueError)"

section \<open>The Universal Motor Controller (\<open>motor/umc.py\<close>)\<close>

text \<open>
  The configuration dictionary, with the keys of \<open>get_default_config\<close>.

  The clock: an instant is a rational number of seconds, and \<open>time.time()\<close> at that
  instant returns the binary64 number nearest to it. The timeout is the number the
  configuration holds; Python compares a float with it exactly.
\<close>

definition time_time :: "rat \<Rightarrow> double" where
  "time_time instant = to_double instant"

record config =
  motor_controller_type :: string
  mqtt_broker :: string
  mqtt_port :: int
  topics_command :: string
  topics_status :: string
  heartbeat_timeout_seconds :: rat
  default_speed_percent :: int
  max_speed_percent :: int
  emergency_stop_enabled :: bool
  safety_heartbeat_monitoring :: bool
  auto_stop_on_disconnect :: bool

definition get_default_config :: config where
  "get_default_config =
     \<lparr>motor_controller_type = ''motozero'',
      mqtt_broker = ''localhost'', mqtt_port = 1883,
      topics_command = ''hov/motor/command'', topics_status = ''hov/motor/status'',
      heartbeat_timeout_seconds = 10,
      default_speed_percent = 50, max_speed_percent = 100,
      emergency_stop_enabled = True, safety_heartbeat_monitoring = True,
      auto_stop_on_disconnect = True\<rparr>"

text \<open>What \<open>open(config_file)\<close> followed by \<open>json.load\<close> finds.\<close>

datatype config_file = Missing | Invalid_json | Json config

definition load_config :: "config_file \<Rightarrow> exn + config" where
  "load_config f =
     (case f of
        Json c \<Rightarrow> Inr c
      | Invalid_json \<Rightarrow> Inl JSONDecodeError
      | Missing \<Rightarrow> Inr get_default_config)"

definition controller_map :: "(string \<times> string \<times> hal) list" where
  \<comment> \<open>controller type, module name, and the object the class constructs\<close>
  "controller_map =
     [(''motozero'', ''motozero'', MotoZero MotoZeroController),
      (''l298'', ''l298'', L298 L298Controller),
      (''camjam'', ''camjam'', CamJam CamJamController)]"

definition create_motor_controller :: "(string \<Rightarrow> bool) \<Rightarrow> string \<Rightarrow> exn + hal" where
  \<comment> \<open>\<open>_create_motor_controller\<close>; \<open>importable\<close> tells which module names \<open>__import__\<close> finds.
      The function returns at \<open>return controller_class()\<close>; the assignments written after
      that line are never executed.\<close>
  "create_motor_controller importable ctype =
     (case map_of controller_map ctype of
        None \<Rightarrow> Inl ValueError
      | Some (module_name, obj) \<Rightarrow>
          if importable (''motor.hal.'' @ module_name) then Inr obj
          else if importable (''hal.'' @ module_name) then Inr obj
          else Inl ImportError)"

record mqtt =
  connection :: "(string \<times> int) option"
  subscriptions :: "string list"
  published :: "(string \<times> status) list"

datatype thread = Status_publisher | Heartbeat_monitor

text \<open>
  The controller object. \<open>config\<close> and \<open>motor_hal\<close> are assigned by \<open>__init__\<close>; each
  other attribute is \<open>None\<close> until some statement assigns it, and reading it while it is
  \<open>None\<close> raises \<open>AttributeError\<close>.
\<close>

record umc =
  config :: config
  motor_hal :: hal
  mqtt_client :: "mqtt option"
  last_heartbeat :: "rat option"
  heartbeat_timeout :: "rat option"
  heartbeat_monitoring :: "bool option"
  status_thread :: "thread option option"
  running :: "bool option"

definition UniversalMotorController :: "(string \<Rightarrow> bool) \<Rightarrow> config_file \<Rightarrow> exn + umc" where
  \<comment> \<open>\<open>__init__\<close>\<close>
  "UniversalMotorController importable config_file =
     (case load_config config_file of
        Inl e \<Rightarrow> Inl e
      | Inr c \<Rightarrow>
          (case create_motor_controller importable (lower (motor_controller_type c)) of
             Inl e \<Rightarrow> Inl e
           | Inr h \<Rightarrow>
               Inr \<lparr>config = c, motor_hal = h, mqtt_client = None, last_heartbeat = None,
                    heartbeat_timeout = None, heartbeat_monitoring = None,
                    status_thread = None, running = None\<rparr>))"

definition on_connect :: "int \<Rightarrow> umc \<Rightarrow> umc" where
  "on_connect rc u =
     (if rc = 0
      then u\<lparr>mqtt_client :=
             map_option (\<lambda>c. c\<lparr>subscriptions := subscriptions c @ [topics_command (config u)]\<rparr>)
               (mqtt_client u)\<rparr>
      else u)"

definition on_disconnect :: "umc \<Rightarrow> umc" where
  "on_disconnect u =
     (if auto_stop_on_disconnect (config u) then u\<lparr>motor_hal := stop (motor_hal u)\<rparr> else u)"

definition publish_status :: "rat \<Rightarrow> umc \<Rightarrow> umc" where
  \<comment> \<open>an exception inside (here: \<open>mqtt_client\<close> missing) is caught and only printed\<close>
  "publish_status now u =
     (let st = (get_status (motor_hal u))
                 \<lparr>timestamp := Some (time_time now),
                  controller_type := Some (motor_controller_type (config u))\<rparr>
      in case mqtt_client u of
           None \<Rightarrow> u
         | Some c \<Rightarrow>
             u\<lparr>mqtt_client := Some (c\<lparr>published := published c @ [(topics_status (config u), st)]\<rparr>)\<rparr>)"

definition execute :: "rat \<Rightarrow> string \<Rightarrow> int \<Rightarrow> umc \<Rightarrow> umc" where
  \<comment> \<open>the \<open>if\<close>/\<open>elif\<close> chain of \<open>process_command\<close>, on \<open>cmd\<close> and \<open>value\<close>\<close>
  "execute now cmd v u =
     (if cmd = ''START_FORWARD'' \<or> cmd = ''FORWARD''
        then u\<lparr>motor_hal := start_forward (Some v) (motor_hal u)\<rparr>
      else if cmd = ''START_BACKWARD'' \<or> cmd = ''BACKWARD''
        then u\<lparr>motor_hal := start_backward (Some v) (motor_hal u)\<rparr>
      else if cmd = ''START_LEFT'' \<or> cmd = ''LEFT''
        then u\<lparr>motor_hal := start_left (Some v) (motor_hal u)\<rparr>
      else if cmd = ''START_RIGHT'' \<or> cmd = ''RIGHT''
        then u\<lparr>motor_hal := start_right (Some v) (motor_hal u)\<rparr>
      else if cmd = ''STOP''
        then u\<lparr>motor_hal := stop (motor_hal u)\<rparr>
      else if cmd = ''SPEED''
        then u\<lparr>motor_hal := set_speed v (motor_hal u)\<rparr>
      else if cmd = ''STATUS''
        then publish_status now u
      else if cmd = ''EMERGENCY_STOP'' \<or> cmd = ''E_STOP''
        then u\<lparr>motor_hal := stop (motor_hal u)\<rparr>
      else if cmd = ''F''
        then u\<lparr>motor_hal := start_forward None (motor_hal u)\<rparr>
      else if cmd = ''B''
        then u\<lparr>motor_hal := start_backward None (motor_hal u)\<rparr>
      else if cmd = ''L''
        then u\<lparr>motor_hal := start_left None (motor_hal u)\<rparr>
      else if cmd = ''R''
        then u\<lparr>motor_hal := start_right None (motor_hal u)\<rparr>
      else if cmd = ''S''
        then u\<lparr>motor_hal := stop (motor_hal u)\<rparr>
      else u)"

definition process_command :: "rat \<Rightarrow> string \<Rightarrow> umc \<Rightarrow> umc" where
  \<comment> \<open>\<open>now\<close> is the instant at which \<open>publish_status\<close> reads the clock if the command
      is \<open>STATUS\<close>\<close>
  "process_command now command u =
     (let command = upper command
      in if CHR '':'' \<in> set command
         then (case py_int (snd (split_once command)) of
                 Inl e \<Rightarrow> u
               | Inr v \<Rightarrow> execute now (fst (split_once command)) v u)
         else execute now command (default_speed_percent (config u)) u)"

text \<open>The result of \<open>msg.payload.decode('utf-8')\<close>.\<close>

datatype payload = Undecodable | Text string

definition on_message :: "rat \<Rightarrow> rat \<Rightarrow> payload \<Rightarrow> umc \<Rightarrow> umc" where
  \<comment> \<open>\<open>now\<close> is the instant of the clock reading stored in \<open>last_heartbeat\<close>, \<open>later\<close>
      the instant of the one a status report takes\<close>
  "on_message now later msg u =
     (case msg of
        Undecodable \<Rightarrow> u
      | Text t \<Rightarrow> process_command later (strip t) (u\<lparr>last_heartbeat := Some (time_time now)\<rparr>))"

definition heartbeat_tick :: "rat \<Rightarrow> rat \<Rightarrow> umc \<Rightarrow> exn + umc" where
  \<comment> \<open>one iteration of the loop of \<open>heartbeat_monitor\<close>; \<open>now\<close> and \<open>later\<close> are the
      instants of its first and second \<open>time.time()\<close>. The difference is a float
      subtraction, rounded like every other.\<close>
  "heartbeat_tick now later u =
     (case heartbeat_monitoring u of
        None \<Rightarrow> Inl (AttributeError ''heartbeat_monitoring'')
      | Some monitoring \<Rightarrow>
          if monitoring
          then (case last_heartbeat u of
                  None \<Rightarrow> Inl (AttributeError ''last_heartbeat'')
                | Some since \<Rightarrow>
                    (case heartbeat_timeout u of
                       None \<Rightarrow> Inl (AttributeError ''heartbeat_timeout'')
                     | Some timeout \<Rightarrow>
                         if timeout < float_sub (time_time now) since
                         then Inr (u\<lparr>motor_hal := stop (motor_hal u),
                                    last_heartbeat := Some (time_time later)\<rparr>)
                         else Inr u))
          else Inr u)"

fun heartbeat_monitor :: "(rat \<times> rat) list \<Rightarrow> umc \<Rightarrow> exn + umc" where
  \<comment> \<open>the loop, over the instants of the clock readings of its successive iterations\<close>
  "heartbeat_monitor [] u = Inr u"
| "heartbeat_monitor ((now, later) # ticks) u =
     (case running u of
        None \<Rightarrow> Inl (AttributeError ''running'')
      | Some r \<Rightarrow>
          if r
          then (case heartbeat_tick now later u of
                  Inl e \<Rightarrow> Inl e
                | Inr u' \<Rightarrow> heartbeat_monitor ticks u')
          else Inr u)"

definition cleanup :: "umc \<Rightarrow> exn option \<times> umc" where
  \<comment> \<open>the exception raised, if any, and the controller as the statements before it left it\<close>
  "cleanup u =
     (let u1 = u\<lparr>running := Some False\<rparr>;
          u2 = u1\<lparr>motor_hal := cleanup_hal (stop (motor_hal u1))\<rparr>
      in case mqtt_client u2 of
           None \<Rightarrow> (Some (AttributeError ''mqtt_client''), u2)
         | Some c \<Rightarrow> (None, u2\<lparr>mqtt_client := Some (c\<lparr>connection := None\<rparr>)\<rparr>))"

datatype inbound = Connack int | Message rat rat payload | Disconnected

fun loop_forever :: "inbound list \<Rightarrow> umc \<Rightarrow> umc" where
  \<comment> \<open>the callbacks the network loop runs, up to the interrupt that ends it\<close>
  "loop_forever [] u = u"
| "loop_forever (Connack rc # es) u = loop_forever es (on_connect rc u)"
| "loop_forever (Message now later msg # es) u = loop_forever es (on_message now later msg u)"
| "loop_forever (Disconnected # es) u = loop_forever es (on_disconnect u)"

definition run :: "exn option \<Rightarrow> inbound list \<Rightarrow> umc \<Rightarrow> exn option \<times> umc" where
  \<comment> \<open>\<open>connect_error\<close> is what \<open>connect\<close> raises, if it does. Every exception of the
      \<open>try\<close> block is caught and printed; \<open>cleanup\<close> runs in the \<open>finally\<close> clause.
      The two timer threads started here are not interleaved with the callbacks.\<close>
  "run connect_error events u =
     cleanup
       (case mqtt_client u of
          None \<Rightarrow> u
        | Some c \<Rightarrow>
            (case connect_error of
               Some e \<Rightarrow> u
             | None \<Rightarrow>
                 (let u1 = u\<lparr>mqtt_client :=
                              Some (c\<lparr>connection := Some (mqtt_broker (config u), mqtt_port (config u))\<rparr>),
                            running := Some True,
                            status_thread := Some (Some Status_publisher)\<rparr>
                  in case heartbeat_monitoring u1 of
                       None \<Rightarrow> u1
                     | Some monitoring \<Rightarrow> loop_forever events u1)))"


section \<open>Operations, reachable states and observations\<close>

text \<open>The six operations of a backend that change its motion state.\<close>

datatype operation =
    Set_speed int
  | Start_forward "int option"
  | Start_backward "int option"
  | Start_left "int option"
  | Start_right "int option"
  | Stop

fun apply_op :: "operation \<Rightarrow> hal \<Rightarrow> hal" where
  "apply_op (Set_speed p) h = set_speed p h"
| "apply_op (Start_forward a) h = start_forward a h"
| "apply_op (Start_backward a) h = start_backward a h"
| "apply_op (Start_left a) h = start_left a h"
| "apply_op (Start_right a) h = start_right a h"
| "apply_op Stop h = stop h"

text \<open>
  A backend state is reachable when it is what one of the three constructors builds, or
  the result of an operation on a reachable state.
\<close>

inductive reachable :: "hal \<Rightarrow> bool" where
  constructed: "(ctype, module_name, h) \<in> set controller_map \<Longrightarrow> reachable h"
| operated: "reachable h \<Longrightarrow> reachable (apply_op op h)"

text \<open>The invariant of the motion state, read through \<open>get_status\<close>.\<close>

definition invariant :: "hal \<Rightarrow> bool" where
  "invariant h =
     (is_moving (get_status h) = (direction (get_status h) \<noteq> STOPPED)
      \<and> 0 \<le> speed_percent (get_status h) \<and> speed_percent (get_status h) \<le> 100)"


text \<open>
  The long-form movement words of \<open>process_command\<close> and the direction each one starts.
\<close>

definition movement_commands :: "(string \<times> direction) list" where
  "movement_commands =
     [(''START_FORWARD'', FORWARD), (''FORWARD'', FORWARD),
      (''START_BACKWARD'', BACKWARD), (''BACKWARD'', BACKWARD),
      (''START_LEFT'', LEFT), (''LEFT'', LEFT),
      (''START_RIGHT'', RIGHT), (''RIGHT'', RIGHT)]"

text \<open>The calls a backend has made on its hardware library so far.\<close>

datatype call = Motor_call motor_call | Gpio_call gpio_call | Robot_call robot_call

definition calls :: "hal \<Rightarrow> call list" where
  "calls h =
     (case h of
        MotoZero s \<Rightarrow> map Motor_call (mz_calls s)
      | L298 s \<Rightarrow> map Gpio_call (l_calls s)
      | CamJam s \<Rightarrow> map Robot_call (cj_calls s))"












subsection \<open>Example controllers\<close>

definition importable_from_main :: "string \<Rightarrow> bool" where
  \<comment> \<open>the program is started from the main directory: the \<open>motor.hal\<close> modules are found\<close>
  "importable_from_main m =
     (m \<in> set [''motor.hal.motozero'', ''motor.hal.l298'', ''motor.hal.camjam''])"

definition constructed_with :: "config \<Rightarrow> hal \<Rightarrow> umc" where
  \<comment> \<open>the controller as \<open>__init__\<close> leaves it\<close>
  "constructed_with c h =
     \<lparr>config = c, motor_hal = h, mqtt_client = None, last_heartbeat = None,
      heartbeat_timeout = None, heartbeat_monitoring = None,
      status_thread = None, running = None\<rparr>"

definition l298_config :: "int \<Rightarrow> config" where
  \<comment> \<open>the default configuration, for an L298 and with the given default speed\<close>
  "l298_config d = get_default_config\<lparr>motor_controller_type := ''l298'', default_speed_percent := d\<rparr>"

definition monitored :: "rat \<Rightarrow> rat \<Rightarrow> umc \<Rightarrow> umc" where
  \<comment> \<open>a controller whose heartbeat attributes are set: monitoring on, the given timeout,
      the last heartbeat read at the given instant, and the threads running\<close>
  "monitored timeout since u =
     u\<lparr>last_heartbeat := Some (time_time since), heartbeat_timeout := Some timeout,
       heartbeat_monitoring := Some True, running := Some True\<rparr>"

section \<open>Properties of the number model\<close>

lemma pow2_powi: "pow2 k = 2 powi k"
  by (simp add: pow2_def power_int_def field_simps)

lemma pow2_pos: "0 < pow2 k"
  by (simp add: pow2_powi)

lemma bit_length_upper: "n < 2 ^ bit_length n"
proof (induction n rule: bit_length.induct)
  case (1 n)
  show ?case
  proof (cases "n \<le> 0")
    case True
    then show ?thesis by (subst bit_length.simps) simp
  next
    case False
    with 1 have "n div 2 < 2 ^ bit_length (n div 2)" by simp
    then have "n < 2 * 2 ^ bit_length (n div 2)" by linarith
    with False show ?thesis by (subst bit_length.simps) simp
  qed
qed

lemma bit_length_lower: "0 < n \<Longrightarrow> 2 ^ bit_length n \<le> 2 * n"
proof (induction n rule: bit_length.induct)
  case (1 n)
  show ?case
  proof (cases "n div 2 = 0")
    case True
    with 1(2) have "n = 1" by linarith
    then show ?thesis by (simp add: bit_length.simps)
  next
    case False
    with 1(2) have pos: "0 < n div 2" by linarith
    with 1 have "2 ^ bit_length (n div 2) \<le> 2 * (n div 2)" by simp
    then have "2 * 2 ^ bit_length (n div 2) \<le> 2 * n" by linarith
    with 1(2) show ?thesis by (subst bit_length.simps) simp
  qed
qed

lemma round_half_even_ge: "\<lfloor>q\<rfloor> \<le> round_half_even q"
  by (simp add: round_half_even_def Let_def)

lemma round_half_even_le: "round_half_even q \<le> \<lceil>q\<rceil>"
proof (cases "q = of_int \<lfloor>q\<rfloor>")
  case True
  then have "q - of_int \<lfloor>q\<rfloor> = 0" by simp
  then show ?thesis by (simp add: round_half_even_def Let_def)
next
  case False
  then have "\<lceil>q\<rceil> = \<lfloor>q\<rfloor> + 1"
    by (metis ceiling_altdef)
  then show ?thesis by (simp add: round_half_even_def Let_def)
qed

lemma pow2_mono: "i \<le> j \<Longrightarrow> pow2 i \<le> pow2 j"
  by (simp add: pow2_powi power_int_increasing)

lemma float_exponent_le:
  assumes "0 < q"
  shows "pow2 (float_exponent q) \<le> q"
proof -
  obtain a b where ab: "quotient_of q = (a, b)" by (cases "quotient_of q")
  then have b: "0 < b" using quotient_of_denom_pos by blast
  have q: "q = of_int a / of_int b" using ab quotient_of_div by blast
  with assms b have a: "0 < a" by (simp add: zero_less_divide_iff)
  define k where "k = int (bit_length a) - int (bit_length b)"
  have la: "(2::rat) ^ bit_length a \<le> 2 * of_int a"
  proof -
    have "of_int (2 ^ bit_length a) \<le> (of_int (2 * a) :: rat)"
      using bit_length_lower [OF a] by (simp only: of_int_le_iff)
    then show ?thesis by simp
  qed
  have ub: "of_int b < (2::rat) ^ bit_length b"
  proof -
    have "(of_int b :: rat) < of_int (2 ^ bit_length b)"
      using bit_length_upper [of b] by (simp only: of_int_less_iff)
    then show ?thesis by simp
  qed
  have "pow2 (k - 1) = 2 powi (int (bit_length a)) / (2 * 2 powi (int (bit_length b)))"
    by (simp add: pow2_powi k_def power_int_diff)
  also have "\<dots> = 2 ^ bit_length a / (2 * 2 ^ bit_length b)"
    by simp
  also have "\<dots> \<le> (2 * of_int a) / (2 * 2 ^ bit_length b)"
    by (rule divide_right_mono [OF la]) simp
  also have "\<dots> = of_int a / 2 ^ bit_length b" by simp
  also have "\<dots> \<le> of_int a / of_int b"
    using a b ub by (simp add: frac_le)
  finally have low: "pow2 (k - 1) \<le> q" using q by simp
  have "float_exponent q = (if pow2 k \<le> q then k else k - 1)"
    using assms ab by (simp add: float_exponent_def Let_def k_def)
  with low show ?thesis by (simp split: if_splits)
qed

lemma to_double_nonneg: "0 \<le> q \<Longrightarrow> 0 \<le> to_double q"
proof -
  assume q: "0 \<le> q"
  have "0 \<le> round_half_even (q / pow2 e)" for e
  proof -
    have "0 \<le> q / pow2 e" using q pow2_pos [of e] by simp
    then have "0 \<le> \<lfloor>q / pow2 e\<rfloor>" by simp
    then show ?thesis using round_half_even_ge [of "q / pow2 e"] by linarith
  qed
  then show ?thesis
    using pow2_pos by (simp add: to_double_def Let_def less_imp_le)
qed

lemma to_double_le:
  assumes "0 \<le> q" and "q \<le> of_int n" and "n < 2 ^ 53"
  shows "to_double q \<le> of_int n"
proof (cases "q = 0")
  case True
  with assms show ?thesis by (simp add: to_double_def)
next
  case False
  with assms have pos: "0 < q" by simp
  define e where "e = max (float_exponent q - 52) (- 1074)"
  have "pow2 (float_exponent q) \<le> q" by (rule float_exponent_le [OF pos])
  also have "q \<le> of_int n" by fact
  also have "(of_int n :: rat) < 2 ^ 53"
  proof -
    have "(of_int n :: rat) < of_int (2 ^ 53)" using assms(3) by (simp only: of_int_less_iff)
    then show ?thesis by simp
  qed
  also have "(2::rat) ^ 53 = pow2 53" by (simp add: pow2_def)
  finally have "pow2 (float_exponent q) < pow2 53" .
  then have "float_exponent q < 53"
    using pow2_mono [of 53 "float_exponent q"] by (cases "float_exponent q < 53") auto
  then have e: "e \<le> 0" by (simp add: e_def)
  define N where "N = n * 2 ^ nat (- e)"
  have inv: "1 / pow2 e = 2 ^ nat (- e)"
    using e by (cases "e = 0") (simp_all add: pow2_def)
  have "q / pow2 e \<le> of_int n / pow2 e"
    using assms(2) pow2_pos [of e] by (simp add: divide_right_mono)
  also have "of_int n / pow2 e = of_int N"
    using inv by (simp add: N_def divide_inverse)
  finally have "\<lceil>q / pow2 e\<rceil> \<le> N" by (simp add: ceiling_le_iff)
  then have m: "round_half_even (q / pow2 e) \<le> N"
    using round_half_even_le [of "q / pow2 e"] by linarith
  have "to_double q = of_int (round_half_even (q / pow2 e)) * pow2 e"
    using False by (simp add: to_double_def Let_def e_def)
  also have "\<dots> \<le> of_int N * pow2 e"
    using m pow2_pos [of e] by (simp add: mult_right_mono)
  also have "of_int N * pow2 e = of_int n"
    using inv pow2_pos [of e] by (simp add: N_def field_simps)
  finally show ?thesis .
qed

lemma stored_speed_bounds:
  "0 \<le> float_div (float_of_int (clamp_percent p)) 100
   \<and> float_div (float_of_int (clamp_percent p)) 100 \<le> 1"
proof -
  define c where "c = clamp_percent p"
  have c: "0 \<le> c" "c \<le> 100" by (simp_all add: c_def clamp_percent_def)
  have x0: "0 \<le> float_of_int c"
    unfolding float_of_int_def using c by (intro to_double_nonneg) simp
  have "to_double (of_int c) \<le> of_int 100"
    using c by (intro to_double_le) simp_all
  then have x1: "float_of_int c \<le> 100" by (simp add: float_of_int_def)
  have lo: "0 \<le> to_double (float_of_int c / 100)"
    using x0 by (intro to_double_nonneg) simp
  have "to_double (float_of_int c / 100) \<le> of_int 1"
    using x0 x1 by (intro to_double_le) simp_all
  with lo show ?thesis by (simp add: float_div_def c_def)
qed

lemma reported_speed_bounds:
  assumes "0 \<le> v" and "v \<le> 1"
  shows "0 \<le> int_of_float (float_mul v 100) \<and> int_of_float (float_mul v 100) \<le> 100"
proof -
  have lo: "0 \<le> to_double (v * 100)"
    using assms by (intro to_double_nonneg) simp
  have "to_double (v * 100) \<le> of_int 100"
    using assms by (intro to_double_le) simp_all
  then have hi: "to_double (v * 100) \<le> 100" by simp
  from lo hi show ?thesis
    by (simp add: int_of_float_def float_mul_def floor_le_iff)
qed

lemma reported_after_set_speed:
  "0 \<le> int_of_float (float_mul (float_div (float_of_int (clamp_percent p)) 100) 100)
   \<and> int_of_float (float_mul (float_div (float_of_int (clamp_percent p)) 100) 100) \<le> 100"
  using stored_speed_bounds [of p] by (intro reported_speed_bounds) simp_all

section \<open>Unfolding rules\<close>

lemmas hal_defs =
  set_speed_def start_def start_forward_def start_backward_def start_left_def start_right_def
  stop_def get_status_def

lemmas mz_defs =
  mz_set_speed_def mz_start_def mz_stop_def mz_get_status_def mz_apply_current_movement_def

lemmas cj_defs =
  cj_set_speed_def cj_start_def cj_stop_def cj_get_status_def cj_apply_current_movement_def

lemmas l_defs =
  l_set_speed_def l_start_def l_stop_def l_get_status_def

section \<open>Properties of the backends\<close>

text \<open>
  C8. \<open>stop\<close> is idempotent and can be called in any state, the constructed one
  included: after a second \<open>stop\<close> the status (direction, is_moving, speed_percent and
  the CamJam motor speeds) is the one after the first, which is stopped, not moving, and
  has the speed of the state before.
\<close>

theorem stop_idempotent:
  "get_status (stop (stop h)) = get_status (stop h)
   \<and> direction (get_status (stop h)) = STOPPED
   \<and> is_moving (get_status (stop h)) = False
   \<and> speed_percent (get_status (stop h)) = speed_percent (get_status h)"
  by (cases h) (simp_all add: hal_defs mz_defs cj_defs l_defs)

lemma invariant_constructed:
  "invariant (MotoZero MotoZeroController)"
  "invariant (L298 L298Controller)"
  "invariant (CamJam CamJamController)"
    apply (simp_all add: invariant_def get_status_def mz_get_status_def l_get_status_def cj_get_status_def
      MotoZeroController_def L298Controller_def CamJamController_def)
  subgoal using reported_speed_bounds [of 0] by simp
  subgoal using reported_speed_bounds [of "1/2"] by simp
  done

lemma clamp_percent_bounds: "0 \<le> clamp_percent p \<and> clamp_percent p \<le> 100"
  by (simp add: clamp_percent_def)

lemma invariant_set_speed: "invariant h \<Longrightarrow> invariant (set_speed p h)"
  using reported_after_set_speed [of p] clamp_percent_bounds [of p]
  by (cases h) (simp_all add: invariant_def hal_defs mz_defs cj_defs l_defs Let_def)

lemma invariant_start: "d \<noteq> STOPPED \<Longrightarrow> invariant (start d a h)"
  using reported_after_set_speed [of "case a of None \<Rightarrow> 50 | Some v \<Rightarrow> v"]
    clamp_percent_bounds [of "case a of None \<Rightarrow> 50 | Some v \<Rightarrow> v"]
  by (cases h) (simp_all add: invariant_def hal_defs mz_defs cj_defs l_defs Let_def)

lemma invariant_stop: "invariant h \<Longrightarrow> invariant (stop h)"
  by (cases h) (simp_all add: invariant_def hal_defs mz_defs cj_defs l_defs)

lemma invariant_apply_op: "invariant h \<Longrightarrow> invariant (apply_op op h)"
  by (cases op)
    (simp_all add: invariant_set_speed invariant_stop invariant_start
      start_forward_def start_backward_def start_left_def start_right_def)

lemma invariant_controller_map:
  "(ctype, module_name, h) \<in> set controller_map \<Longrightarrow> invariant h"
  using invariant_constructed by (auto simp: controller_map_def)

text \<open>
  C9. The invariant \<open>is_moving = (direction \<noteq> STOPPED)\<close> and
  \<open>0 \<le> speed_percent \<le> 100\<close> holds in the state each of the three constructors
  builds, every operation (\<open>set_speed\<close>, the four start operations, \<open>stop\<close>) preserves
  it, and so it holds in every reachable state.
\<close>

theorem invariant_holds:
  "invariant (MotoZero MotoZeroController)
   \<and> invariant (L298 L298Controller)
   \<and> invariant (CamJam CamJamController)
   \<and> (invariant h \<longrightarrow> invariant (apply_op op h))
   \<and> (reachable h' \<longrightarrow> invariant h')"
proof -
  have "invariant h'" if "reachable h'"
    using that by induction (simp_all add: invariant_controller_map invariant_apply_op)
  then show ?thesis
    using invariant_constructed invariant_apply_op by blast
qed

theorem invariant_holds_witness:
  "invariant (MotoZero MotoZeroController)
   \<and> invariant (apply_op (Start_forward (Some 29)) (MotoZero MotoZeroController))
   \<and> reachable (apply_op Stop (apply_op (Set_speed 150) (L298 L298Controller)))
   \<and> invariant (apply_op Stop (apply_op (Set_speed 150) (L298 L298Controller)))"
proof -
  have "(''l298'', ''l298'', L298 L298Controller) \<in> set controller_map"
    by (simp add: controller_map_def)
  then have r: "reachable (apply_op Stop (apply_op (Set_speed 150) (L298 L298Controller)))"
    by (intro reachable.operated reachable.constructed)
  show ?thesis
    using r invariant_holds [of "MotoZero MotoZeroController" "Start_forward (Some 29)"
        "apply_op Stop (apply_op (Set_speed 150) (L298 L298Controller))"]
    by blast
qed

lemma float_29: "float_div (float_of_int 29) 100 = 5224175567749775 / 18014398509481984"
  by code_simp

lemma float_29_reported: "int_of_float (float_mul (5224175567749775 / 18014398509481984) 100) = 28"
  by code_simp

lemma clamp_percent_id: "0 \<le> p \<Longrightarrow> p \<le> 100 \<Longrightarrow> clamp_percent p = p"
  by (simp add: clamp_percent_def)

lemma start_then_status:
  assumes "d \<noteq> STOPPED"
  shows "direction (get_status (start d a h)) = d \<and> is_moving (get_status (start d a h))"
  by (cases h) (simp_all add: hal_defs mz_defs cj_defs l_defs Let_def)

lemma start_then_status_l298:
  "0 \<le> p \<Longrightarrow> p \<le> 100 \<Longrightarrow> speed_percent (get_status (start d (Some p) (L298 s))) = p"
  by (simp add: hal_defs l_defs Let_def clamp_percent_id)

text \<open>
  C6. \<open>start_forward(29)\<close> followed by \<open>get_status()\<close>: MotoZero and CamJam store
  \<open>29 / 100.0\<close>, and \<open>int(current_speed * 100)\<close> truncates \<open>28.999999999999996\<close> to
  28; the L298, which stores the integer, reports 29.
\<close>

theorem start_forward_29_reports_28:
  "get_status (start_forward (Some 29) (MotoZero MotoZeroController)) =
     \<lparr>speed_percent = 28, direction = FORWARD, is_moving = True,
      left_motor_speed = None, right_motor_speed = None,
      timestamp = None, controller_type = None\<rparr>
   \<and> speed_percent (get_status (start_forward (Some 29) (CamJam CamJamController))) = 28
   \<and> speed_percent (get_status (start_forward (Some 29) (L298 L298Controller))) = 29"
  by (simp add: hal_defs mz_defs cj_defs l_defs Let_def MotoZeroController_def CamJamController_def
      L298Controller_def clamp_percent_id float_29 float_29_reported)


































section \<open>Properties of the command handler\<close>

lemma split_once_at:
  "CHR '':'' \<notin> set name \<Longrightarrow> split_once (name @ CHR '':'' # rest) = (name, rest)"
  by (induction name) (auto simp: split_once_def)

lemma execute_movement:
  "execute now ''START_FORWARD'' v u = u\<lparr>motor_hal := start FORWARD (Some v) (motor_hal u)\<rparr>"
  "execute now ''FORWARD'' v u = u\<lparr>motor_hal := start FORWARD (Some v) (motor_hal u)\<rparr>"
  "execute now ''START_BACKWARD'' v u = u\<lparr>motor_hal := start BACKWARD (Some v) (motor_hal u)\<rparr>"
  "execute now ''BACKWARD'' v u = u\<lparr>motor_hal := start BACKWARD (Some v) (motor_hal u)\<rparr>"
  "execute now ''START_LEFT'' v u = u\<lparr>motor_hal := start LEFT (Some v) (motor_hal u)\<rparr>"
  "execute now ''LEFT'' v u = u\<lparr>motor_hal := start LEFT (Some v) (motor_hal u)\<rparr>"
  "execute now ''START_RIGHT'' v u = u\<lparr>motor_hal := start RIGHT (Some v) (motor_hal u)\<rparr>"
  "execute now ''RIGHT'' v u = u\<lparr>motor_hal := start RIGHT (Some v) (motor_hal u)\<rparr>"
  by (simp_all add: execute_def start_forward_def start_backward_def start_left_def start_right_def)

lemma movement_names:
  assumes "(name, d) \<in> set movement_commands"
  shows "CHR '':'' \<notin> set name"
    and "execute now name v u = u\<lparr>motor_hal := start d (Some v) (motor_hal u)\<rparr>"
  using assms by (auto simp: movement_commands_def execute_movement)

lemma process_command_valued:
  assumes "(name, d) \<in> set movement_commands"
    and "upper command = name @ '':'' @ digits"
    and "py_int digits = Inr v"
  shows "process_command now command u = u\<lparr>motor_hal := start d (Some v) (motor_hal u)\<rparr>"
  using assms movement_names [OF assms(1)]
  by (simp add: process_command_def Let_def split_once_at)



text \<open>
  \<open>int()\<close> skips the whitespace 9-13, 32, 0x85 and 0xA0 around the digits and nothing
  else: a value that starts with the separator 0x1F is no integer, and the command that
  carries it is discarded.
\<close>

lemma py_int_whitespace:
  "py_int (CHR 0x1F # ''80'') = Inl ValueError"
  "py_int (CHR 0xA0 # ''80'') = Inr 80"
  "py_int '' 80 '' = Inr 80"
  "py_int ''8 0'' = Inl ValueError"
  by code_simp+

lemma separator_value_discarded:
  "process_command 0 (''START_FORWARD:'' @ CHR 0x1F # ''80'')
     (constructed_with (l298_config 50) (L298 L298Controller))
   = constructed_with (l298_config 50) (L298 L298Controller)"
  by code_simp


lemma l298_example:
  "UniversalMotorController importable_from_main (Json (l298_config d))
     = Inr (constructed_with (l298_config d) (L298 L298Controller))"
  by (simp add: UniversalMotorController_def load_config_def create_motor_controller_def
      controller_map_def l298_config_def get_default_config_def lower_def lower_char_def
      importable_from_main_def constructed_with_def)



lemma legacy_texts:
  "upper ''F'' = ''F''" "upper ''B'' = ''B''" "upper ''L'' = ''L''" "upper ''R'' = ''R''"
  "upper ''S'' = ''S''" "upper ''STOP'' = ''STOP''"
  "upper ''START_FORWARD:50'' = ''START_FORWARD'' @ '':'' @ ''50''"
  "upper ''START_BACKWARD:50'' = ''START_BACKWARD'' @ '':'' @ ''50''"
  "upper ''START_LEFT:50'' = ''START_LEFT'' @ '':'' @ ''50''"
  "upper ''START_RIGHT:50'' = ''START_RIGHT'' @ '':'' @ ''50''"
  by code_simp+

lemma py_int_50: "py_int ''50'' = Inr 50"
  by code_simp

lemma execute_legacy:
  "execute now ''F'' v u = u\<lparr>motor_hal := start FORWARD None (motor_hal u)\<rparr>"
  "execute now ''B'' v u = u\<lparr>motor_hal := start BACKWARD None (motor_hal u)\<rparr>"
  "execute now ''L'' v u = u\<lparr>motor_hal := start LEFT None (motor_hal u)\<rparr>"
  "execute now ''R'' v u = u\<lparr>motor_hal := start RIGHT None (motor_hal u)\<rparr>"
  "execute now ''S'' v u = u\<lparr>motor_hal := stop (motor_hal u)\<rparr>"
  "execute now ''STOP'' v u = u\<lparr>motor_hal := stop (motor_hal u)\<rparr>"
  by (simp_all add: execute_def start_forward_def start_backward_def start_left_def start_right_def)

lemma process_command_legacy:
  "process_command now ''F'' u = u\<lparr>motor_hal := start FORWARD None (motor_hal u)\<rparr>"
  "process_command now ''B'' u = u\<lparr>motor_hal := start BACKWARD None (motor_hal u)\<rparr>"
  "process_command now ''L'' u = u\<lparr>motor_hal := start LEFT None (motor_hal u)\<rparr>"
  "process_command now ''R'' u = u\<lparr>motor_hal := start RIGHT None (motor_hal u)\<rparr>"
  "process_command now ''S'' u = u\<lparr>motor_hal := stop (motor_hal u)\<rparr>"
  "process_command now ''STOP'' u = u\<lparr>motor_hal := stop (motor_hal u)\<rparr>"
  by (simp_all add: process_command_def Let_def legacy_texts execute_legacy)

lemma start_default_argument: "start d None h = start d (Some 50) h"
  by (simp add: start_def)

lemma process_command_at_50:
  "process_command now ''START_FORWARD:50'' u = u\<lparr>motor_hal := start FORWARD (Some 50) (motor_hal u)\<rparr>"
  "process_command now ''START_BACKWARD:50'' u = u\<lparr>motor_hal := start BACKWARD (Some 50) (motor_hal u)\<rparr>"
  "process_command now ''START_LEFT:50'' u = u\<lparr>motor_hal := start LEFT (Some 50) (motor_hal u)\<rparr>"
  "process_command now ''START_RIGHT:50'' u = u\<lparr>motor_hal := start RIGHT (Some 50) (motor_hal u)\<rparr>"
  by (rule process_command_valued [OF _ _ py_int_50];
      simp add: movement_commands_def legacy_texts)+

text \<open>
  C5, as the code has it. A legacy command passes no speed to the backend, whose start
  operations default to 50: \<open>F\<close>, \<open>B\<close>, \<open>L\<close>, \<open>R\<close> leave the controller exactly as
  \<open>START_FORWARD:50\<close>, ... do, whatever default speed is configured, and \<open>S\<close> leaves it
  as \<open>STOP\<close> does.
\<close>

theorem legacy_equals_long_form_at_50:
  "process_command now ''F'' u = process_command now ''START_FORWARD:50'' u
   \<and> process_command now ''B'' u = process_command now ''START_BACKWARD:50'' u
   \<and> process_command now ''L'' u = process_command now ''START_LEFT:50'' u
   \<and> process_command now ''R'' u = process_command now ''START_RIGHT:50'' u
   \<and> process_command now ''S'' u = process_command now ''STOP'' u"
  by (simp add: process_command_legacy process_command_at_50 start_default_argument)

text \<open>
  C5 as stated fails: with the default speed configured as 30, \<open>F\<close> leaves the speed
  at 50 and \<open>START_FORWARD:30\<close> leaves it at 30.
\<close>

theorem legacy_ignores_configured_default_counterexample:
  "default_speed_percent (config (constructed_with (l298_config 30) (L298 L298Controller))) = 30
   \<and> speed_percent (get_status (motor_hal
        (process_command 0 ''F'' (constructed_with (l298_config 30) (L298 L298Controller))))) = 50
   \<and> speed_percent (get_status (motor_hal
        (process_command 0 ''START_FORWARD:30''
           (constructed_with (l298_config 30) (L298 L298Controller))))) = 30"
  by code_simp

lemma last_heartbeat_publish_status:
  "last_heartbeat (publish_status now u) = last_heartbeat u"
  by (simp add: publish_status_def Let_def split: option.splits)

lemma last_heartbeat_execute: "last_heartbeat (execute now cmd v u) = last_heartbeat u"
  by (simp add: execute_def last_heartbeat_publish_status)

lemma last_heartbeat_process_command:
  "last_heartbeat (process_command now command u) = last_heartbeat u"
  by (simp add: process_command_def Let_def last_heartbeat_execute split: sum.splits)

lemma process_command_malformed:
  assumes "CHR '':'' \<in> set (upper command)"
    and "py_int (snd (split_once (upper command))) = Inl e"
  shows "process_command now command u = u"
  using assms by (simp add: process_command_def Let_def)

lemma clock_readings:
  "time_time 0 = 0" "time_time 5 = 5" "time_time 6 = 6" "time_time 11 = 11"
  "time_time 12 = 12" "time_time 22 = 22" "time_time 100 = 100"
  "time_time (103 / 10) = 2899192260119757 / 281474976710656"
  "time_time (3 / 10) = 5404319552844595 / 18014398509481984"
  by code_simp+

lemma clock_differences:
  "float_sub 5 0 = 5" "float_sub 6 5 = 1" "float_sub 11 0 = 11" "float_sub 12 11 = 1"
  "float_sub 22 11 = 11"
  "float_sub (2899192260119757 / 281474976710656) (5404319552844595 / 18014398509481984) = 10"
  by code_simp+

text \<open>
  C2, as the code has it. \<open>on_message\<close> stores the clock reading in \<open>last_heartbeat\<close>
  before it hands the text to \<open>process_command\<close>: every message whose payload decodes
  refreshes the heartbeat, whether or not its command parses. A command whose text after
  the colon is no integer is discarded: the heartbeat is the only thing the message
  changes, the motor state included. A payload that does not decode changes nothing.
\<close>

theorem heartbeat_refreshed_by_every_text:
  "last_heartbeat (on_message now later (Text t) u) = Some (time_time now)
   \<and> on_message now later Undecodable u = u
   \<and> (CHR '':'' \<in> set (upper (strip t))
        \<and> py_int (snd (split_once (upper (strip t)))) = Inl e \<longrightarrow>
      on_message now later (Text t) u = u\<lparr>last_heartbeat := Some (time_time now)\<rparr>)"
  by (simp add: on_message_def last_heartbeat_process_command process_command_malformed)

theorem heartbeat_refreshed_by_every_text_witness:
  "CHR '':'' \<in> set (upper (strip ''SPEED:abc''))
   \<and> py_int (snd (split_once (upper (strip ''SPEED:abc'')))) = Inl ValueError
   \<and> on_message 100 100 (Text ''SPEED:abc'')
        (constructed_with get_default_config (MotoZero MotoZeroController))
      = (constructed_with get_default_config (MotoZero MotoZeroController))
          \<lparr>last_heartbeat := Some 100\<rparr>"
proof -
  have a: "CHR '':'' \<in> set (upper (strip ''SPEED:abc''))"
    and b: "py_int (snd (split_once (upper (strip ''SPEED:abc'')))) = Inl ValueError"
    by code_simp+
  show ?thesis
    using a b heartbeat_refreshed_by_every_text
      [of 100 100 "''SPEED:abc''" "constructed_with get_default_config (MotoZero MotoZeroController)"
        ValueError]
    unfolding clock_readings by blast
qed

text \<open>
  C2 as stated fails: \<open>SPEED:abc\<close> has no integer after the colon and changes
  nothing in the backend, yet the heartbeat moves from 0 to the time of arrival, 100.
\<close>

theorem malformed_value_refreshes_heartbeat_counterexample:
  "py_int (snd (split_once (upper (strip ''SPEED:abc'')))) = Inl ValueError
   \<and> last_heartbeat
        (monitored 10 0 (constructed_with get_default_config (L298 L298Controller))) = Some 0
   \<and> last_heartbeat
        (on_message 100 100 (Text ''SPEED:abc'')
           (monitored 10 0 (constructed_with get_default_config (L298 L298Controller)))) = Some 100
   \<and> motor_hal
        (on_message 100 100 (Text ''SPEED:abc'')
           (monitored 10 0 (constructed_with get_default_config (L298 L298Controller))))
       = L298 L298Controller"
proof -
  let ?u = "monitored 10 0 (constructed_with get_default_config (L298 L298Controller))"
  have a: "CHR '':'' \<in> set (upper (strip ''SPEED:abc''))"
    and b: "py_int (snd (split_once (upper (strip ''SPEED:abc'')))) = Inl ValueError"
    and s: "strip ''SPEED:abc'' = ''SPEED:abc''"
    by code_simp+
  have p: "process_command 100 ''SPEED:abc'' (?u\<lparr>last_heartbeat := Some 100\<rparr>)
      = ?u\<lparr>last_heartbeat := Some 100\<rparr>"
    using a b unfolding s by (rule process_command_malformed)
  have m: "on_message 100 100 (Text ''SPEED:abc'') ?u = ?u\<lparr>last_heartbeat := Some 100\<rparr>"
    by (simp add: on_message_def s p clock_readings)
  show ?thesis
    using b unfolding m by (simp add: monitored_def constructed_with_def clock_readings)
qed

lemma stop_makes_calls: "calls (stop h) \<noteq> calls h"
  by (cases h) (simp_all add: calls_def hal_defs mz_defs cj_defs l_defs l_outputs_def l_pins_def)

lemma heartbeat_tick_breach:
  assumes "heartbeat_monitoring u = Some True" and "last_heartbeat u = Some since"
    and "heartbeat_timeout u = Some timeout" and "timeout < float_sub (time_time now) since"
  shows "heartbeat_tick now later u =
     Inr (u\<lparr>motor_hal := stop (motor_hal u), last_heartbeat := Some (time_time later)\<rparr>)"
  using assms by (simp add: heartbeat_tick_def)

lemma heartbeat_tick_quiet:
  assumes "heartbeat_monitoring u = Some True" and "last_heartbeat u = Some since"
    and "heartbeat_timeout u = Some timeout" and "float_sub (time_time now) since \<le> timeout"
  shows "heartbeat_tick now later u = Inr u"
  using assms by (simp add: heartbeat_tick_def)

text \<open>
  The difference is the rounded one. The clock readings nearest to 10.3 and 0.3 differ
  by more than 10, but their float difference is 10.0: with a timeout of 10 the
  monitor does nothing on that tick.
\<close>

lemma heartbeat_tick_rounded_difference:
  "10 < time_time (103 / 10) - time_time (3 / 10)
   \<and> heartbeat_tick (103 / 10) later
        (monitored 10 (3 / 10) (constructed_with get_default_config (L298 L298Controller)))
      = Inr (monitored 10 (3 / 10) (constructed_with get_default_config (L298 L298Controller)))"
  by (simp add: heartbeat_tick_def monitored_def constructed_with_def clock_readings
      clock_differences)

text \<open>
  C3, as the code has it. On a tick where monitoring is on and the float difference
  between the clock and the last heartbeat exceeds the timeout, the monitor calls \<open>stop\<close>
  once and sets \<open>last_heartbeat\<close> to its second clock reading. The following tick makes
  no call provided its own difference to that reset reading does not exceed the
  timeout; a later tick whose difference exceeds it calls \<open>stop\<close> once more.
\<close>

theorem heartbeat_one_stop_per_breach:
  assumes "heartbeat_monitoring u = Some True" and "running u = Some True"
    and "last_heartbeat u = Some since" and "heartbeat_timeout u = Some timeout"
    and "timeout < float_sub (time_time now_a) since"
  shows
    "heartbeat_tick now_a later_a u =
        Inr (u\<lparr>motor_hal := stop (motor_hal u), last_heartbeat := Some (time_time later_a)\<rparr>)
     \<and> calls (stop (motor_hal u)) \<noteq> calls (motor_hal u)
     \<and> (float_sub (time_time now_b) (time_time later_a) \<le> timeout \<longrightarrow>
          heartbeat_monitor [(now_a, later_a), (now_b, later_b)] u =
            Inr (u\<lparr>motor_hal := stop (motor_hal u), last_heartbeat := Some (time_time later_a)\<rparr>))
     \<and> (float_sub (time_time now_b) (time_time later_a) \<le> timeout
          \<and> timeout < float_sub (time_time now_c) (time_time later_a) \<longrightarrow>
          heartbeat_monitor [(now_a, later_a), (now_b, later_b), (now_c, later_c)] u =
            Inr (u\<lparr>motor_hal := stop (stop (motor_hal u)),
                   last_heartbeat := Some (time_time later_c)\<rparr>))"
proof -
  let ?u1 = "u\<lparr>motor_hal := stop (motor_hal u), last_heartbeat := Some (time_time later_a)\<rparr>"
  have t1: "heartbeat_tick now_a later_a u = Inr ?u1"
    using assms by (simp add: heartbeat_tick_breach)
  have t2: "heartbeat_tick now_b later_b ?u1 = Inr ?u1"
    if "float_sub (time_time now_b) (time_time later_a) \<le> timeout"
    using assms that
    by (intro heartbeat_tick_quiet [where since = "time_time later_a" and timeout = timeout])
      simp_all
  have t3: "heartbeat_tick now_c later_c ?u1 =
      Inr (u\<lparr>motor_hal := stop (stop (motor_hal u)), last_heartbeat := Some (time_time later_c)\<rparr>)"
    if "timeout < float_sub (time_time now_c) (time_time later_a)"
    using assms that by (simp add: heartbeat_tick_def)
  show ?thesis
    using assms(2) t1 t2 t3 stop_makes_calls [of "motor_hal u"] by simp
qed

theorem heartbeat_one_stop_per_breach_witness:
  "heartbeat_monitoring (monitored 10 0 (constructed_with get_default_config (L298 L298Controller))) = Some True
   \<and> running (monitored 10 0 (constructed_with get_default_config (L298 L298Controller))) = Some True
   \<and> last_heartbeat (monitored 10 0 (constructed_with get_default_config (L298 L298Controller))) = Some 0
   \<and> heartbeat_timeout (monitored 10 0 (constructed_with get_default_config (L298 L298Controller))) = Some 10
   \<and> 10 < float_sub (time_time 11) 0
   \<and> float_sub (time_time 12) (time_time 11) \<le> 10
   \<and> 10 < float_sub (time_time 22) (time_time 11)
   \<and> heartbeat_monitor [(11, 11), (12, 12), (22, 22)]
        (monitored 10 0 (constructed_with get_default_config (L298 L298Controller))) =
      Inr ((monitored 10 0 (constructed_with get_default_config (L298 L298Controller)))
             \<lparr>motor_hal := stop (stop (L298 L298Controller)), last_heartbeat := Some 22\<rparr>)"
proof -
  let ?u = "monitored 10 0 (constructed_with get_default_config (L298 L298Controller))"
  have a: "heartbeat_monitoring ?u = Some True" "running ?u = Some True"
    "last_heartbeat ?u = Some 0" "heartbeat_timeout ?u = Some 10"
    and h: "motor_hal ?u = L298 L298Controller"
    by (simp_all add: monitored_def constructed_with_def clock_readings)
  have b: "10 < float_sub (time_time 11) 0" "float_sub (time_time 12) (time_time 11) \<le> 10"
    "10 < float_sub (time_time 22) (time_time 11)"
    by (simp_all add: clock_readings clock_differences)
  have "heartbeat_monitor [(11, 11), (12, 12), (22, 22)] ?u =
      Inr (?u\<lparr>motor_hal := stop (stop (motor_hal ?u)), last_heartbeat := Some (time_time 22)\<rparr>)"
    using heartbeat_one_stop_per_breach
        [where later_a = 11 and now_b = 12 and later_b = 12 and now_c = 22 and later_c = 22, OF a b(1)] b
    by blast
  then show ?thesis using a b unfolding h clock_readings by blast
qed

text \<open>
  C3 as stated fails: with a timeout of half a second and ticks one second apart, the
  tick that follows a forced stop finds the reset heartbeat older than the timeout and
  calls \<open>stop\<close> again.
\<close>

theorem short_timeout_stops_every_tick_counterexample:
  "heartbeat_monitor [(5, 5), (6, 6)]
     (monitored (1 / 2) 0 (constructed_with get_default_config (L298 L298Controller))) =
   Inr ((monitored (1 / 2) 0 (constructed_with get_default_config (L298 L298Controller)))
          \<lparr>motor_hal := stop (stop (L298 L298Controller)), last_heartbeat := Some 6\<rparr>)"
  by (simp add: heartbeat_tick_def monitored_def constructed_with_def clock_readings
      clock_differences)

section \<open>Properties of construction and \<open>run\<close>\<close>

text \<open>
  C10, as the code has it. A configuration file that is not valid JSON ends
  construction with the decoder's error. A missing file does not: \<open>load_config\<close>
  catches \<open>FileNotFoundError\<close> and construction goes on exactly as with a file holding
  the default configuration.
\<close>

theorem invalid_config_fails_missing_config_defaults:
  "UniversalMotorController importable Invalid_json = Inl JSONDecodeError
   \<and> UniversalMotorController importable Missing
       = UniversalMotorController importable (Json get_default_config)"
  by (simp add: UniversalMotorController_def load_config_def)

text \<open>
  C10 as stated fails: started from the main directory with no configuration file,
  construction succeeds, with the default configuration and a MotoZero backend.
\<close>

theorem missing_config_constructs_counterexample:
  "UniversalMotorController importable_from_main Missing
     = Inr (constructed_with get_default_config (MotoZero MotoZeroController))"
  by (simp add: UniversalMotorController_def load_config_def create_motor_controller_def
      controller_map_def get_default_config_def lower_def lower_char_def
      importable_from_main_def constructed_with_def)

lemma constructed_attributes:
  assumes "UniversalMotorController importable config_file = Inr u"
  shows "mqtt_client u = None" "last_heartbeat u = None" "heartbeat_timeout u = None"
    "heartbeat_monitoring u = None" "status_thread u = None" "running u = None"
  using assms
  by (auto simp: UniversalMotorController_def split: sum.splits)

text \<open>
  C1. A controller that \<open>__init__\<close> has built has none of the attributes
  \<open>mqtt_client\<close>, \<open>last_heartbeat\<close>, \<open>heartbeat_timeout\<close>, \<open>heartbeat_monitoring\<close>,
  \<open>status_thread\<close>, \<open>running\<close>. Whatever the broker and the inbound messages would
  be, \<open>run\<close> ends with \<open>AttributeError\<close> on \<open>mqtt_client\<close>: no connection is made and
  no message is handled; the only effects are those of \<open>cleanup\<close> before its failing
  statement (\<open>running\<close> set to false, the motors stopped and released).
\<close>

theorem run_fails_on_missing_attributes:
  assumes "UniversalMotorController importable config_file = Inr u"
  shows
    "mqtt_client u = None \<and> last_heartbeat u = None \<and> heartbeat_timeout u = None
     \<and> heartbeat_monitoring u = None \<and> status_thread u = None \<and> running u = None
     \<and> run connect_error events u =
         (Some (AttributeError ''mqtt_client''),
          u\<lparr>running := Some False, motor_hal := cleanup_hal (stop (motor_hal u))\<rparr>)"
  using constructed_attributes [OF assms]
  by (simp add: run_def cleanup_def Let_def)

theorem run_fails_on_missing_attributes_witness:
  "UniversalMotorController importable_from_main Missing
     = Inr (constructed_with get_default_config (MotoZero MotoZeroController))
   \<and> fst (run None [Connack 0, Message 1 1 (Text ''F'')]
        (constructed_with get_default_config (MotoZero MotoZeroController)))
       = Some (AttributeError ''mqtt_client'')
   \<and> mqtt_client (snd (run None [Connack 0, Message 1 1 (Text ''F'')]
        (constructed_with get_default_config (MotoZero MotoZeroController)))) = None"
proof -
  let ?u = "constructed_with get_default_config (MotoZero MotoZeroController)"
  have c: "UniversalMotorController importable_from_main Missing = Inr ?u"
    by (simp add: UniversalMotorController_def load_config_def create_motor_controller_def
        controller_map_def get_default_config_def lower_def lower_char_def
        importable_from_main_def constructed_with_def)
  have r: "run None [Connack 0, Message 1 1 (Text ''F'')] ?u =
      (Some (AttributeError ''mqtt_client''),
       ?u\<lparr>running := Some False, motor_hal := cleanup_hal (stop (motor_hal ?u))\<rparr>)"
    and m: "mqtt_client ?u = None"
    using run_fails_on_missing_attributes [OF c] by blast+
  show ?thesis using c r m by simp
qed

end
